theory Spec2Isabelle
  imports Complex_Main "HOL-Library.Word"
begin

section \<open>Numbers\<close>

subsection \<open>double\<close>

text \<open>
  The values of a C++ \<^verbatim>\<open>double\<close>, as far as the runner can tell them apart: a finite
  value, the two infinities and NaN. The special values follow IEEE 754: a division by
  zero gives an infinity or NaN, NaN is absorbing, and every comparison with NaN is false.
  Arithmetic on finite values is exact here: rounding, overflow and underflow are not
  modelled. The general statements below hold whatever the finite result of an operation
  is, and the concrete runs state no value that a double does not hold exactly.
  The two zeros are one value \<open>Fin 0\<close>: they compare equal, and the only operation of the
  source that could tell them apart, a division, is under \<^verbatim>\<open>std::abs\<close>.
\<close>

datatype double = Fin real | PInf | NInf | NaN

definition is_neg :: "double \<Rightarrow> bool" where
  "is_neg x = (case x of Fin a \<Rightarrow> a < 0 | NInf \<Rightarrow> True | _ \<Rightarrow> False)"

definition isnan :: "double \<Rightarrow> bool" where
  "isnan x = (x = NaN)"

definition isinf :: "double \<Rightarrow> bool" where
  "isinf x = (x = PInf \<or> x = NInf)"

definition isfinite :: "double \<Rightarrow> bool" where
  "isfinite x = (case x of Fin a \<Rightarrow> True | _ \<Rightarrow> False)"

instantiation double :: "{uminus, plus, minus, times, inverse, abs, ord}"
begin

fun uminus_double :: "double \<Rightarrow> double" where
  "uminus_double (Fin a) = Fin (- a)"
| "uminus_double PInf = NInf"
| "uminus_double NInf = PInf"
| "uminus_double NaN = NaN"

fun plus_double :: "double \<Rightarrow> double \<Rightarrow> double" where
  "plus_double (Fin a) (Fin b) = Fin (a + b)"
| "plus_double NaN y = NaN"
| "plus_double x NaN = NaN"
| "plus_double PInf NInf = NaN"
| "plus_double NInf PInf = NaN"
| "plus_double PInf y = PInf"
| "plus_double NInf y = NInf"
| "plus_double x PInf = PInf"
| "plus_double x NInf = NInf"

definition minus_double :: "double \<Rightarrow> double \<Rightarrow> double" where
  "minus_double x y = x + (- y)"

fun times_double :: "double \<Rightarrow> double \<Rightarrow> double" where
  "times_double (Fin a) (Fin b) = Fin (a * b)"
| "times_double NaN y = NaN"
| "times_double x NaN = NaN"
| "times_double PInf y = (if y = Fin 0 then NaN else if is_neg y then NInf else PInf)"
| "times_double NInf y = (if y = Fin 0 then NaN else if is_neg y then PInf else NInf)"
| "times_double x PInf = (if x = Fin 0 then NaN else if is_neg x then NInf else PInf)"
| "times_double x NInf = (if x = Fin 0 then NaN else if is_neg x then PInf else NInf)"

fun divide_double :: "double \<Rightarrow> double \<Rightarrow> double" where
  "divide_double NaN y = NaN"
| "divide_double x NaN = NaN"
| "divide_double (Fin a) (Fin b) =
     (if b = 0 then (if a = 0 then NaN else if 0 < a then PInf else NInf)
      else Fin (a / b))"
| "divide_double (Fin a) y = Fin 0"
| "divide_double x (Fin b) = (if is_neg x = (b < 0) then PInf else NInf)"
| "divide_double x y = NaN"

definition inverse_double :: "double \<Rightarrow> double" where
  "inverse_double x = divide (Fin 1) x"

fun abs_double :: "double \<Rightarrow> double" where
  "abs_double (Fin a) = Fin \<bar>a\<bar>"
| "abs_double PInf = PInf"
| "abs_double NInf = PInf"
| "abs_double NaN = NaN"

fun less_double :: "double \<Rightarrow> double \<Rightarrow> bool" where
  "less_double (Fin a) (Fin b) = (a < b)"
| "less_double NaN y = False"
| "less_double x NaN = False"
| "less_double NInf NInf = False"
| "less_double NInf y = True"
| "less_double x NInf = False"
| "less_double PInf y = False"
| "less_double x PInf = True"

definition less_eq_double :: "double \<Rightarrow> double \<Rightarrow> bool" where
  "less_eq_double x y = (x < y \<or> (x = y \<and> x \<noteq> NaN))"

instance ..

end

text \<open>The operator \<^verbatim>\<open>==\<close> on doubles: NaN is equal to nothing, itself included.\<close>

definition deq :: "double \<Rightarrow> double \<Rightarrow> bool" where
  "deq x y = (x = y \<and> x \<noteq> NaN)"

text \<open>\<^verbatim>\<open>std::numeric_limits<double>::epsilon()\<close>, which is \<open>2\<^sup>-\<^sup>5\<^sup>2\<close>.\<close>

definition epsilon :: double where
  "epsilon = Fin (1 / 2 ^ 52)"

subsection \<open>size_t\<close>

text \<open>\<^verbatim>\<open>size_t\<close> on a 64-bit platform: \<open>+\<close> wraps around at \<open>2\<^sup>6\<^sup>4\<close>.\<close>

type_synonym size_t = "64 word"

text \<open>The conversion of a \<^verbatim>\<open>size_t\<close> to \<^verbatim>\<open>double\<close> (exact here, as all finite arithmetic).\<close>

definition double_of_size :: "nat \<Rightarrow> double" where
  "double_of_size n = Fin (real n)"

section \<open>Data model\<close>

subsection \<open>Eigen matrices and vectors\<close>

text \<open>
  \<^verbatim>\<open>cpd::Matrix\<close> is a dynamically sized Eigen matrix of doubles: its two dimensions and
  its coefficients, row by row. A cloud of \<open>N\<close> points in \<open>D\<close> dimensions has \<open>N\<close> rows and
  \<open>D\<close> columns. \<^verbatim>\<open>cpd::Vector\<close> is a column of doubles.
\<close>

record matrix =
  rows :: nat
  cols :: nat
  coeffs :: "double list list"

type_synonym vector = "double list"

subsection \<open>Probabilities, Normalization, Result\<close>

text \<open>
  The structs are declared in headers that are not part of the sources at hand
  (\<^verbatim>\<open>cpd/comparer/base.hpp\<close>, \<^verbatim>\<open>cpd/normalize.hpp\<close>, \<^verbatim>\<open>cpd/nonrigid.hpp\<close>); the
  records have the fields that \<^verbatim>\<open>runner.hpp\<close> and \<^verbatim>\<open>nonrigid.cpp\<close> read and write.
\<close>

record Probabilities =
  p1 :: vector
  pt1 :: vector
  px :: matrix
  l :: double
  correspondence :: "nat list"

record Normalization =
  fixed_mean :: vector
  fixed :: matrix
  moving :: matrix
  scale :: double

text \<open>
  \<^verbatim>\<open>Transform::Result\<close>. Each transform has a Result type of its own; the runner uses the
  four fields below (and \<^verbatim>\<open>runtime\<close>, a wall-clock duration, which is left out), so
  the runner is defined on every extension \<open>'x Result_scheme\<close> of this record.
\<close>

record Result =
  points :: matrix
  sigma2 :: double
  correspondence :: "nat list"
  iterations :: size_t

subsection \<open>Comparer and Transform\<close>

text \<open>
  \<^verbatim>\<open>Comparer::compute(fixed, moving, sigma2, outliers)\<close>, the E-step. The comparers are not
  part of the sources at hand, so a comparer is a parameter of the model.
\<close>

type_synonym Comparer = "matrix \<Rightarrow> matrix \<Rightarrow> double \<Rightarrow> double \<Rightarrow> Probabilities"

text \<open>
  The template parameter \<^verbatim>\<open>Transform\<close> of \<^verbatim>\<open>Runner\<close>: a class with a state \<open>'t\<close>, a
  default-constructed \<^verbatim>\<open>Result\<close> and the four methods that \<^verbatim>\<open>Runner::run\<close> calls.
  Each method takes the transform's state and returns the new one.
\<close>

record ('t, 'x) Transform =
  Result_default :: "'x Result_scheme"
  init :: "matrix \<Rightarrow> matrix \<Rightarrow> 't \<Rightarrow> 't"
  modify_probabilities :: "Probabilities \<Rightarrow> 't \<Rightarrow> Probabilities \<times> 't"
  compute :: "matrix \<Rightarrow> matrix \<Rightarrow> Probabilities \<Rightarrow> double \<Rightarrow> 't \<Rightarrow> 'x Result_scheme \<times> 't"
  denormalize :: "Normalization \<Rightarrow> 'x Result_scheme \<Rightarrow> 't \<Rightarrow> 'x Result_scheme \<times> 't"

text \<open>
  The functions that \<^verbatim>\<open>Runner::run\<close> calls and that are defined elsewhere:
  \<^verbatim>\<open>cpd::normalize\<close>, \<^verbatim>\<open>cpd::default_sigma2\<close> and \<^verbatim>\<open>DirectComparer().compute\<close>.
\<close>

record Env =
  cpd_normalize :: "matrix \<Rightarrow> matrix \<Rightarrow> Normalization"
  default_sigma2 :: "matrix \<Rightarrow> matrix \<Rightarrow> double"
  DirectComparer_compute :: Comparer

section \<open>Runner\<close>

definition DEFAULT_MAX_ITERATIONS :: size_t where
  "DEFAULT_MAX_ITERATIONS = 150"

definition DEFAULT_NORMALIZE :: bool where
  "DEFAULT_NORMALIZE = True"

definition DEFAULT_OUTLIERS :: double where
  "DEFAULT_OUTLIERS = Fin (1 / 10)"

definition DEFAULT_TOLERANCE :: double where
  "DEFAULT_TOLERANCE = Fin (1 / 100000)"

definition DEFAULT_SIGMA2 :: double where
  "DEFAULT_SIGMA2 = Fin 0"

definition DEFAULT_CORRESPONDENCE :: bool where
  "DEFAULT_CORRESPONDENCE = False"

text \<open>The members of \<^verbatim>\<open>Runner<Transform>\<close>, but for the logger.\<close>

record 't Runner =
  m_comparer :: Comparer
  m_correspondence :: bool
  m_max_iterations :: size_t
  m_normalize :: bool
  m_outliers :: double
  m_sigma2 :: double
  m_tolerance :: double
  m_transform :: 't

text \<open>
  \<^verbatim>\<open>Runner(Transform transform)\<close>; \<open>create\<close> is what \<^verbatim>\<open>Comparer::create()\<close> returns.
  The default constructor \<^verbatim>\<open>Runner()\<close> is \<open>new_Runner create t\<close> with \<open>t\<close> the
  default-constructed transform.
\<close>

definition new_Runner :: "Comparer \<Rightarrow> 't \<Rightarrow> 't Runner" where
  "new_Runner create transform =
     \<lparr>m_comparer = create,
      m_correspondence = DEFAULT_CORRESPONDENCE,
      m_max_iterations = DEFAULT_MAX_ITERATIONS,
      m_normalize = DEFAULT_NORMALIZE,
      m_outliers = DEFAULT_OUTLIERS,
      m_sigma2 = DEFAULT_SIGMA2,
      m_tolerance = DEFAULT_TOLERANCE,
      m_transform = transform\<rparr>"

text \<open>
  The accessors. C++ overloads one name for the getter and the setter
  (\<^verbatim>\<open>tolerance()\<close>, \<^verbatim>\<open>tolerance(double)\<close>); here they are \<open>get_tolerance\<close> and
  \<open>set_tolerance\<close>. A setter returns the runner it has changed.
\<close>

definition set_comparer :: "Comparer \<Rightarrow> 't Runner \<Rightarrow> 't Runner" where
  "set_comparer comparer r = r\<lparr>m_comparer := comparer\<rparr>"

definition get_correspondence :: "'t Runner \<Rightarrow> bool" where
  "get_correspondence r = m_correspondence r"

definition set_correspondence :: "bool \<Rightarrow> 't Runner \<Rightarrow> 't Runner" where
  "set_correspondence c r = r\<lparr>m_correspondence := c\<rparr>"

definition get_max_iterations :: "'t Runner \<Rightarrow> size_t" where
  "get_max_iterations r = m_max_iterations r"

definition set_max_iterations :: "size_t \<Rightarrow> 't Runner \<Rightarrow> 't Runner" where
  "set_max_iterations n r = r\<lparr>m_max_iterations := n\<rparr>"

definition get_normalize :: "'t Runner \<Rightarrow> bool" where
  "get_normalize r = m_normalize r"

definition set_normalize :: "bool \<Rightarrow> 't Runner \<Rightarrow> 't Runner" where
  "set_normalize b r = r\<lparr>m_normalize := b\<rparr>"

definition get_sigma2 :: "'t Runner \<Rightarrow> double" where
  "get_sigma2 r = m_sigma2 r"

definition set_sigma2 :: "double \<Rightarrow> 't Runner \<Rightarrow> 't Runner" where
  "set_sigma2 x r = r\<lparr>m_sigma2 := x\<rparr>"

definition get_tolerance :: "'t Runner \<Rightarrow> double" where
  "get_tolerance r = m_tolerance r"

definition set_tolerance :: "double \<Rightarrow> 't Runner \<Rightarrow> 't Runner" where
  "set_tolerance x r = r\<lparr>m_tolerance := x\<rparr>"

definition get_outliers :: "'t Runner \<Rightarrow> double" where
  "get_outliers r = m_outliers r"

definition set_outliers :: "double \<Rightarrow> 't Runner \<Rightarrow> 't Runner" where
  "set_outliers x r = r\<lparr>m_outliers := x\<rparr>"

subsection \<open>Runner::run\<close>

text \<open>
  \<^verbatim>\<open>run\<close> calls the comparer, the transform and the functions of \<open>Env\<close>. The model
  records these calls, in the order they are made and with their arguments, beside the
  values that \<^verbatim>\<open>run\<close> computes. The messages to the logger are left out: they change
  no value.
\<close>

datatype call =
    Call_normalize matrix matrix
  | Call_init matrix matrix
  | Call_default_sigma2 matrix matrix
  | Call_comparer matrix matrix double double
  | Call_modify_probabilities Probabilities
  | Call_compute matrix matrix Probabilities double
  | Call_denormalize Normalization
  | Call_DirectComparer matrix matrix double double

text \<open>
  The local variables of \<^verbatim>\<open>run\<close> that the loop reads and writes (the local \<^verbatim>\<open>l\<close> is
  \<open>l_prev\<close> here, \<open>l\<close> being the field of \<open>Probabilities\<close>), the member
  \<^verbatim>\<open>m_transform\<close>, which the calls of its methods change, and the calls made so far.
\<close>

record ('t, 'x) locals =
  iter :: size_t
  ntol :: double
  l_prev :: double
  result :: "'x Result_scheme"
  transform :: 't
  calls :: "call list"

text \<open>What \<^verbatim>\<open>*fixed_ptr\<close> and \<^verbatim>\<open>*moving_ptr\<close> are after lines 138 to 146.\<close>

definition fixed_ptr :: "Env \<Rightarrow> 't Runner \<Rightarrow> matrix \<Rightarrow> matrix \<Rightarrow> matrix" where
  "fixed_ptr E r fixed0 moving0 =
     (if m_normalize r then fixed (cpd_normalize E fixed0 moving0) else fixed0)"

definition moving_ptr :: "Env \<Rightarrow> 't Runner \<Rightarrow> matrix \<Rightarrow> matrix \<Rightarrow> matrix" where
  "moving_ptr E r fixed0 moving0 =
     (if m_normalize r then moving (cpd_normalize E fixed0 moving0) else moving0)"

text \<open>Lines 138 to 163: the state in which the loop is entered.\<close>

definition run_entry ::
  "Env \<Rightarrow> ('t, 'x) Transform \<Rightarrow> 't Runner \<Rightarrow> matrix \<Rightarrow> matrix \<Rightarrow> ('t, 'x) locals" where
  "run_entry E T r fixed0 moving0 =
     (let fp = fixed_ptr E r fixed0 moving0;
          mp = moving_ptr E r fixed0 moving0
      in \<lparr>iter = 0,
          ntol = m_tolerance r + Fin 10,
          l_prev = Fin 0,
          result = (Result_default T)
            \<lparr>points := mp,
             sigma2 := (if deq (m_sigma2 r) (Fin 0) then default_sigma2 E fp mp
                        else m_sigma2 r)\<rparr>,
          transform = init T fp mp (m_transform r),
          calls = (if m_normalize r then [Call_normalize fixed0 moving0] else [])
            @ [Call_init fp mp]
            @ (if deq (m_sigma2 r) (Fin 0) then [Call_default_sigma2 fp mp] else [])\<rparr>)"

text \<open>Lines 164 and 165: the condition of the loop.\<close>

definition loop_cond :: "'t Runner \<Rightarrow> ('t, 'x) locals \<Rightarrow> bool" where
  "loop_cond r s \<longleftrightarrow>
     iter s < m_max_iterations r \<and> m_tolerance r < ntol s
     \<and> Fin 10 * epsilon < sigma2 (result s)"

text \<open>Lines 166 to 177: the body of the loop.\<close>

definition loop_body ::
  "('t, 'x) Transform \<Rightarrow> 't Runner \<Rightarrow> matrix \<Rightarrow> matrix \<Rightarrow> ('t, 'x) locals \<Rightarrow> ('t, 'x) locals" where
  "loop_body T r fp mp s =
     (let probabilities0 =
            m_comparer r fp (points (result s)) (sigma2 (result s)) (m_outliers r);
          (probabilities, t1) = modify_probabilities T probabilities0 (transform s);
          (result', t2) = compute T fp mp probabilities (sigma2 (result s)) t1
      in \<lparr>iter = iter s + 1,
          ntol = \<bar>(l probabilities - l_prev s) / l probabilities\<bar>,
          l_prev = l probabilities,
          result = result',
          transform = t2,
          calls = calls s @
            [Call_comparer fp (points (result s)) (sigma2 (result s)) (m_outliers r),
             Call_modify_probabilities probabilities0,
             Call_compute fp mp probabilities (sigma2 (result s))]\<rparr>)"

lemma iter_loop_body: "iter (loop_body T r fp mp s) = iter s + 1"
  by (simp add: loop_body_def Let_def split: prod.splits)

lemma unat_iter_loop_body:
  assumes "loop_cond r s"
  shows "unat (iter (loop_body T r fp mp s)) = Suc (unat (iter s))"
proof -
  from assms have "iter s < m_max_iterations r"
    by (simp add: loop_cond_def)
  then have "unat (iter s + 1) = Suc (unat (iter s))"
    by unat_arith
  then show ?thesis
    by (simp add: iter_loop_body)
qed

text \<open>Lines 164 to 178: the loop.\<close>

function em_loop ::
  "('t, 'x) Transform \<Rightarrow> 't Runner \<Rightarrow> matrix \<Rightarrow> matrix \<Rightarrow> ('t, 'x) locals \<Rightarrow> ('t, 'x) locals" where
  "em_loop T r fp mp s =
     (if loop_cond r s then em_loop T r fp mp (loop_body T r fp mp s) else s)"
  by pat_completeness auto
termination
proof (relation "measure (\<lambda>(T, r, fp, mp, s). unat (m_max_iterations r) - unat (iter s))")
  show "wf (measure (\<lambda>(T, r, fp, mp, s). unat (m_max_iterations r) - unat (iter s)))"
    by simp
next
  fix T :: "('t, 'x) Transform" and r :: "'t Runner" and fp mp :: matrix
    and s :: "('t, 'x) locals"
  assume c: "loop_cond r s"
  then have "unat (iter s) < unat (m_max_iterations r)"
    by (simp add: loop_cond_def word_less_nat_alt)
  with unat_iter_loop_body [OF c, of T fp mp]
  show "((T, r, fp, mp, loop_body T r fp mp s), (T, r, fp, mp, s))
        \<in> measure (\<lambda>(T, r, fp, mp, s). unat (m_max_iterations r) - unat (iter s))"
    by simp
qed

declare em_loop.simps [simp del]

text \<open>Lines 179 to 191: after the loop.\<close>

definition run_exit ::
  "Env \<Rightarrow> ('t, 'x) Transform \<Rightarrow> 't Runner \<Rightarrow> matrix \<Rightarrow> matrix \<Rightarrow> ('t, 'x) locals
   \<Rightarrow> 'x Result_scheme \<times> 't Runner \<times> call list" where
  "run_exit E T r fixed0 moving0 s =
     (let (result1, t1, calls1) =
            (if m_normalize r
             then (let normalization = cpd_normalize E fixed0 moving0;
                       (res, t) = denormalize T normalization (result s) (transform s)
                   in (res, t, calls s @ [Call_denormalize normalization]))
             else (result s, transform s, calls s));
          (result2, calls2) =
            (if m_correspondence r
             then (let probabilities =
                         DirectComparer_compute E fixed0 (points result1)
                           (m_sigma2 r) (m_outliers r)
                   in (result1\<lparr>correspondence :=
                                  Probabilities.correspondence probabilities\<rparr>,
                       calls1 @ [Call_DirectComparer fixed0 (points result1)
                                   (m_sigma2 r) (m_outliers r)]))
             else (result1, calls1))
      in (result2\<lparr>iterations := iter s\<rparr>, r\<lparr>m_transform := t1\<rparr>, calls2))"

text \<open>
  \<^verbatim>\<open>Runner::run(fixed, moving)\<close>: the Result it returns, the runner after the call and
  the calls it has made.
\<close>

definition run ::
  "Env \<Rightarrow> ('t, 'x) Transform \<Rightarrow> 't Runner \<Rightarrow> matrix \<Rightarrow> matrix
   \<Rightarrow> 'x Result_scheme \<times> 't Runner \<times> call list" where
  "run E T r fixed0 moving0 =
     run_exit E T r fixed0 moving0
       (em_loop T r (fixed_ptr E r fixed0 moving0) (moving_ptr E r fixed0 moving0)
          (run_entry E T r fixed0 moving0))"

section \<open>The nonrigid transform\<close>

subsection \<open>The Eigen operations that nonrigid.cpp uses\<close>

text \<open>
  Eigen checks that the dimensions of the operands agree by assertions only; the
  operations below are what it computes when they agree. A result has the dimensions
  Eigen gives it.
\<close>

definition dsum :: "double list \<Rightarrow> double" where
  "dsum xs = foldl (+) (Fin 0) xs"

definition Zero :: "nat \<Rightarrow> nat \<Rightarrow> matrix" where
  "Zero n m = \<lparr>rows = n, cols = m, coeffs = replicate n (replicate m (Fin 0))\<rparr>"

definition Identity :: "nat \<Rightarrow> nat \<Rightarrow> matrix" where
  "Identity n m =
     \<lparr>rows = n, cols = m,
      coeffs = map (\<lambda>i. map (\<lambda>j. if i = j then Fin 1 else Fin 0) [0..<m]) [0..<n]\<rparr>"

definition mat_add :: "matrix \<Rightarrow> matrix \<Rightarrow> matrix" where
  "mat_add A B =
     \<lparr>rows = rows A, cols = cols A, coeffs = map2 (map2 (+)) (coeffs A) (coeffs B)\<rparr>"

definition mat_sub :: "matrix \<Rightarrow> matrix \<Rightarrow> matrix" where
  "mat_sub A B =
     \<lparr>rows = rows A, cols = cols A, coeffs = map2 (map2 (-)) (coeffs A) (coeffs B)\<rparr>"

definition scalar_mul :: "double \<Rightarrow> matrix \<Rightarrow> matrix" where
  "scalar_mul c A =
     \<lparr>rows = rows A, cols = cols A, coeffs = map (map (\<lambda>x. c * x)) (coeffs A)\<rparr>"

definition mul_scalar :: "matrix \<Rightarrow> double \<Rightarrow> matrix" where
  "mul_scalar A c =
     \<lparr>rows = rows A, cols = cols A, coeffs = map (map (\<lambda>x. x * c)) (coeffs A)\<rparr>"

definition column :: "matrix \<Rightarrow> nat \<Rightarrow> double list" where
  "column A j = map (\<lambda>row. row ! j) (coeffs A)"

definition mat_mul :: "matrix \<Rightarrow> matrix \<Rightarrow> matrix" where
  "mat_mul A B =
     \<lparr>rows = rows A, cols = cols B,
      coeffs = map (\<lambda>row. map (\<lambda>j. dsum (map2 (*) row (column B j))) [0..<cols B])
                 (coeffs A)\<rparr>"

definition mat_transpose :: "matrix \<Rightarrow> matrix" where
  "mat_transpose A =
     \<lparr>rows = cols A, cols = rows A, coeffs = map (column A) [0..<cols A]\<rparr>"

definition trace :: "matrix \<Rightarrow> double" where
  "trace A = dsum (map (\<lambda>i. coeffs A ! i ! i) [0..<min (rows A) (cols A)])"

text \<open>\<^verbatim>\<open>v.asDiagonal() * A\<close>: row \<open>i\<close> of \<open>A\<close> times \<open>v\<^sub>i\<close>.\<close>

definition asDiagonal_mul :: "vector \<Rightarrow> matrix \<Rightarrow> matrix" where
  "asDiagonal_mul v A =
     \<lparr>rows = length v, cols = cols A,
      coeffs = map2 (\<lambda>d row. map (\<lambda>x. d * x) row) v (coeffs A)\<rparr>"

text \<open>\<^verbatim>\<open>A.array().pow(2)\<close>, \<^verbatim>\<open>A.array() * B.array()\<close> and \<^verbatim>\<open>.sum()\<close>.\<close>

definition array_pow2 :: "matrix \<Rightarrow> matrix" where
  "array_pow2 A =
     \<lparr>rows = rows A, cols = cols A, coeffs = map (map (\<lambda>x. x * x)) (coeffs A)\<rparr>"

definition array_mul :: "matrix \<Rightarrow> matrix \<Rightarrow> matrix" where
  "array_mul A B =
     \<lparr>rows = rows A, cols = cols A, coeffs = map2 (map2 (*)) (coeffs A) (coeffs B)\<rparr>"

definition array_sum :: "matrix \<Rightarrow> double" where
  "array_sum A = dsum (concat (coeffs A))"

text \<open>\<^verbatim>\<open>v.replicate(1, n)\<close>: the column \<open>v\<close>, \<open>n\<close> times side by side.\<close>

definition replicate_columns :: "vector \<Rightarrow> nat \<Rightarrow> matrix" where
  "replicate_columns v n =
     \<lparr>rows = length v, cols = n, coeffs = map (\<lambda>x. replicate n x) v\<rparr>"

text \<open>\<^verbatim>\<open>v.transpose().replicate(n, 1)\<close>: the row \<open>v\<close>, \<open>n\<close> times one below the other.\<close>

definition replicate_rows :: "vector \<Rightarrow> nat \<Rightarrow> matrix" where
  "replicate_rows v n = \<lparr>rows = n, cols = length v, coeffs = replicate n v\<rparr>"

subsection \<open>Nonrigid\<close>

text \<open>
  The members of \<^verbatim>\<open>Nonrigid\<close> that nonrigid.cpp uses. \<^verbatim>\<open>affinity\<close> (affinity.hpp) and
  Eigen's \<^verbatim>\<open>colPivHouseholderQr().solve\<close> are not part of the sources at hand: they are
  the parameters \<open>affinity\<close> and \<open>solve\<close> below, \<open>solve A b\<close> being what the solver
  returns for the system \<open>A \<cdot> X = b\<close>.
\<close>

record Nonrigid =
  m_beta :: double
  m_lambda :: double
  m_g :: matrix
  m_w :: matrix

definition Nonrigid_init ::
  "(matrix \<Rightarrow> matrix \<Rightarrow> double \<Rightarrow> matrix) \<Rightarrow> matrix \<Rightarrow> matrix \<Rightarrow> Nonrigid \<Rightarrow> Nonrigid" where
  "Nonrigid_init affinity fixed0 moving0 t =
     t\<lparr>m_g := affinity moving0 moving0 (m_beta t),
       m_w := Zero (rows moving0) (cols moving0)\<rparr>"

definition Nonrigid_modify_probabilities :: "Probabilities \<Rightarrow> Nonrigid \<Rightarrow> Probabilities" where
  "Nonrigid_modify_probabilities probabilities t =
     probabilities\<lparr>l := l probabilities
       + m_lambda t / Fin 2
         * trace (mat_mul (mat_mul (mat_transpose (m_w t)) (m_g t)) (m_w t))\<rparr>"

text \<open>
  A default-constructed \<^verbatim>\<open>Nonrigid::Result\<close>. The scalar members have no value until they
  are assigned; they stand as 0 here, and both \<^verbatim>\<open>Nonrigid::compute\<close> and
  \<^verbatim>\<open>Runner::run\<close> assign them before the Result is returned.
\<close>

definition Nonrigid_Result :: Result where
  "Nonrigid_Result =
     \<lparr>points = Zero 0 0, sigma2 = Fin 0, correspondence = [], iterations = 0\<rparr>"

definition Nonrigid_compute ::
  "(matrix \<Rightarrow> matrix \<Rightarrow> matrix) \<Rightarrow> matrix \<Rightarrow> matrix \<Rightarrow> Probabilities \<Rightarrow> double \<Rightarrow> Nonrigid
   \<Rightarrow> Result \<times> Nonrigid" where
  "Nonrigid_compute solve fixed0 moving0 probabilities s2 t =
     (let w = solve
            (mat_add (asDiagonal_mul (p1 probabilities) (m_g t))
               (scalar_mul (m_lambda t * s2) (Identity (rows moving0) (rows moving0))))
            (mat_sub (px probabilities) (asDiagonal_mul (p1 probabilities) moving0));
          pts = mat_add moving0 (mat_mul (m_g t) w);
          np = dsum (p1 probabilities)
      in (Nonrigid_Result
            \<lparr>points := pts,
             sigma2 :=
               \<bar>(array_sum (array_mul (array_pow2 fixed0)
                     (replicate_columns (pt1 probabilities) (cols fixed0)))
                  + array_sum (array_mul (array_pow2 pts)
                     (replicate_columns (p1 probabilities) (cols fixed0)))
                  - Fin 2 * trace (mat_mul (mat_transpose (px probabilities)) pts))
                 / (np * double_of_size (cols fixed0))\<bar>\<rparr>,
          t\<lparr>m_w := w\<rparr>))"

definition Nonrigid_denormalize :: "Normalization \<Rightarrow> Result \<Rightarrow> Nonrigid \<Rightarrow> Result" where
  "Nonrigid_denormalize normalization res t =
     res\<lparr>points :=
           mat_add (mul_scalar (points res) (scale normalization))
             (replicate_rows (fixed_mean normalization) (rows (points res)))\<rparr>"

text \<open>\<^verbatim>\<open>Nonrigid\<close> as a \<open>Transform\<close>; two of its methods are const.\<close>

definition Nonrigid_Transform ::
  "(matrix \<Rightarrow> matrix \<Rightarrow> double \<Rightarrow> matrix) \<Rightarrow> (matrix \<Rightarrow> matrix \<Rightarrow> matrix)
   \<Rightarrow> (Nonrigid, unit) Transform" where
  "Nonrigid_Transform affinity solve =
     \<lparr>Result_default = Nonrigid_Result,
      init = Nonrigid_init affinity,
      modify_probabilities = (\<lambda>probabilities t. (Nonrigid_modify_probabilities probabilities t, t)),
      compute = Nonrigid_compute solve,
      denormalize = (\<lambda>normalization res t. (Nonrigid_denormalize normalization res t, t))\<rparr>"

section \<open>The default of sigma2\<close>

text \<open>
  Modelled from the spec: the squared distance of two points, which the default of
  \<open>sigma2\<close> below is made of; \<^verbatim>\<open>cpd::default_sigma2\<close> is not part of the sources at hand.
\<close>

definition squared_distance :: "double list \<Rightarrow> double list \<Rightarrow> double" where
  "squared_distance x y = dsum (map2 (\<lambda>a b. (a - b) * (a - b)) x y)"

text \<open>
  Modelled from the spec: \<^verbatim>\<open>cpd::default_sigma2\<close> (declared in \<^verbatim>\<open>cpd/utils.hpp\<close>) is not
  part of the sources at hand. The spec gives it as the "mean squared pairwise distance
  between all fixed and moving points, scaled by 1/(D\<cdot>N\<cdot>M)": the sum of the squared
  distances of all pairs of a fixed and a moving point, divided by \<open>D \<cdot> N \<cdot> M\<close>.
\<close>

definition spec_default_sigma2 :: "matrix \<Rightarrow> matrix \<Rightarrow> double" where
  "spec_default_sigma2 fixed0 moving0 =
     dsum (concat (map (\<lambda>x. map (\<lambda>y. squared_distance x y) (coeffs moving0))
                     (coeffs fixed0)))
     / (double_of_size (cols fixed0) * double_of_size (rows fixed0)
        * double_of_size (rows moving0))"

section \<open>Reading a run\<close>

text \<open>
  The kinds of calls that the statements below count: a call of the configured comparer
  (the E-step of an iteration), a call of the transform's \<^verbatim>\<open>compute\<close> (its M-step) and a
  call of \<^verbatim>\<open>DirectComparer().compute\<close>.
\<close>

fun is_E_step :: "call \<Rightarrow> bool" where
  "is_E_step (Call_comparer f p s w) = True"
| "is_E_step c = False"

fun is_M_step :: "call \<Rightarrow> bool" where
  "is_M_step (Call_compute f m p s) = True"
| "is_M_step c = False"

fun is_direct :: "call \<Rightarrow> bool" where
  "is_direct (Call_DirectComparer f p s w) = True"
| "is_direct c = False"

text \<open>The local variables of \<^verbatim>\<open>run\<close> after \<open>k\<close> executions of the loop's body.\<close>

definition locals_after ::
  "Env \<Rightarrow> ('t, 'x) Transform \<Rightarrow> 't Runner \<Rightarrow> matrix \<Rightarrow> matrix \<Rightarrow> nat \<Rightarrow> ('t, 'x) locals" where
  "locals_after E T r fixed0 moving0 k =
     (loop_body T r (fixed_ptr E r fixed0 moving0) (moving_ptr E r fixed0 moving0) ^^ k)
       (run_entry E T r fixed0 moving0)"

section \<open>A small run\<close>

text \<open>
  Concrete inputs, on which the statements below are evaluated: two clouds of one point
  in one dimension, a comparer that gives every point the weight 1 and takes the
  variance as its likelihood, a normalization that centres both clouds on the first
  fixed point and leaves the scale, the affinity of a single point with itself and a
  solver for diagonal systems. \<open>sample_comparer0\<close> is the same comparer with the likelihood 0. The runner
  runs the nonrigid transform for at most two iterations, without normalization.
\<close>

definition sample_fixed :: matrix where
  "sample_fixed = \<lparr>rows = 1, cols = 1, coeffs = [[Fin 1]]\<rparr>"

definition sample_moving :: matrix where
  "sample_moving = \<lparr>rows = 1, cols = 1, coeffs = [[Fin 0]]\<rparr>"

definition sample_comparer :: Comparer where
  "sample_comparer fixed0 pts s2 w =
     \<lparr>p1 = replicate (rows pts) (Fin 1), pt1 = replicate (rows fixed0) (Fin 1),
      px = fixed0, l = s2, correspondence = replicate (rows pts) 0\<rparr>"

definition sample_normalize :: "matrix \<Rightarrow> matrix \<Rightarrow> Normalization" where
  "sample_normalize fixed0 moving0 =
     (let mean = (case coeffs fixed0 of [] \<Rightarrow> [] | x # xs \<Rightarrow> x)
      in \<lparr>fixed_mean = mean,
          fixed = mat_sub fixed0 (replicate_rows mean (rows fixed0)),
          moving = mat_sub moving0 (replicate_rows mean (rows moving0)),
          scale = Fin 1\<rparr>)"

definition sample_Env :: Env where
  "sample_Env =
     \<lparr>cpd_normalize = sample_normalize,
      default_sigma2 = spec_default_sigma2,
      DirectComparer_compute = sample_comparer\<rparr>"

definition sample_affinity :: "matrix \<Rightarrow> matrix \<Rightarrow> double \<Rightarrow> matrix" where
  "sample_affinity a b beta = Identity (rows a) (rows b)"

definition sample_solve :: "matrix \<Rightarrow> matrix \<Rightarrow> matrix" where
  "sample_solve A b =
     \<lparr>rows = rows b, cols = cols b,
      coeffs = map2 (\<lambda>i row. map (\<lambda>x. x / (coeffs A ! i ! i)) row) [0..<rows b] (coeffs b)\<rparr>"

definition sample_Nonrigid :: Nonrigid where
  "sample_Nonrigid = \<lparr>m_beta = Fin 3, m_lambda = Fin 3, m_g = Zero 0 0, m_w = Zero 0 0\<rparr>"

definition sample_Runner :: "Nonrigid Runner" where
  "sample_Runner =
     set_max_iterations 2 (set_normalize False (new_Runner sample_comparer sample_Nonrigid))"

definition sample_comparer0 :: Comparer where
  "sample_comparer0 fixed0 pts s2 w = (sample_comparer fixed0 pts s2 w)\<lparr>l := Fin 0\<rparr>"

definition sample_Transform :: "(Nonrigid, unit) Transform" where
  "sample_Transform = Nonrigid_Transform sample_affinity sample_solve"

text \<open>The definitions that an evaluation of a run unfolds.\<close>

lemmas sample_defs =
  sample_fixed_def sample_moving_def sample_comparer_def sample_normalize_def sample_Env_def
  sample_affinity_def sample_solve_def sample_Nonrigid_def sample_Runner_def
  sample_comparer0_def sample_Transform_def

lemmas runner_defs =
  new_Runner_def set_max_iterations_def set_normalize_def set_correspondence_def
  set_tolerance_def set_outliers_def set_sigma2_def set_comparer_def
  get_max_iterations_def get_normalize_def get_correspondence_def
  get_tolerance_def get_outliers_def get_sigma2_def
  DEFAULT_CORRESPONDENCE_def DEFAULT_MAX_ITERATIONS_def DEFAULT_NORMALIZE_def
  DEFAULT_OUTLIERS_def DEFAULT_SIGMA2_def DEFAULT_TOLERANCE_def

lemmas run_defs =
  run_def run_entry_def run_exit_def fixed_ptr_def moving_ptr_def loop_cond_def loop_body_def
  em_loop.simps deq_def epsilon_def double_of_size_def

lemmas eigen_defs =
  dsum_def Zero_def Identity_def mat_add_def mat_sub_def scalar_mul_def mul_scalar_def
  column_def mat_mul_def mat_transpose_def trace_def asDiagonal_mul_def array_pow2_def
  array_mul_def array_sum_def replicate_columns_def replicate_rows_def

lemmas nonrigid_defs =
  Nonrigid_init_def Nonrigid_modify_probabilities_def Nonrigid_Result_def
  Nonrigid_compute_def Nonrigid_denormalize_def Nonrigid_Transform_def
  squared_distance_def spec_default_sigma2_def minus_double_def

lemmas eval_defs = sample_defs runner_defs run_defs eigen_defs nonrigid_defs Let_def

section \<open>The loop\<close>

lemma em_loop_funpow:
  "\<exists>n. em_loop T r fp mp s = (loop_body T r fp mp ^^ n) s
     \<and> (\<forall>k<n. loop_cond r ((loop_body T r fp mp ^^ k) s))
     \<and> \<not> loop_cond r ((loop_body T r fp mp ^^ n) s)"
proof (induction T r fp mp s rule: em_loop.induct)
  case (1 T r fp mp s)
  show ?case
  proof (cases "loop_cond r s")
    case False
    then have "em_loop T r fp mp s = (loop_body T r fp mp ^^ 0) s"
      by (simp add: em_loop.simps)
    with False show ?thesis
      by (intro exI [of _ 0]) simp
  next
    case True
    from "1.IH" [OF True] obtain n where
      n: "em_loop T r fp mp (loop_body T r fp mp s)
            = (loop_body T r fp mp ^^ n) (loop_body T r fp mp s)"
         "\<forall>k<n. loop_cond r ((loop_body T r fp mp ^^ k) (loop_body T r fp mp s))"
         "\<not> loop_cond r ((loop_body T r fp mp ^^ n) (loop_body T r fp mp s))"
      by blast
    have "em_loop T r fp mp s = (loop_body T r fp mp ^^ Suc n) s"
      using True n(1) by (simp add: em_loop.simps [of T r fp mp s] funpow_swap1)
    moreover have "\<forall>k<Suc n. loop_cond r ((loop_body T r fp mp ^^ k) s)"
    proof (intro allI impI)
      fix k assume "k < Suc n"
      then show "loop_cond r ((loop_body T r fp mp ^^ k) s)"
        using True n(2) by (cases k) (simp_all add: funpow_swap1)
    qed
    moreover have "\<not> loop_cond r ((loop_body T r fp mp ^^ Suc n) s)"
      using n(3) by (simp add: funpow_swap1)
    ultimately show ?thesis
      by blast
  qed
qed

lemma unat_iter_funpow:
  "(\<forall>k<n. loop_cond r ((loop_body T r fp mp ^^ k) s))
   \<Longrightarrow> unat (iter ((loop_body T r fp mp ^^ n) s)) = unat (iter s) + n"
proof (induction n)
  case 0
  show ?case by simp
next
  case (Suc n)
  then have "loop_cond r ((loop_body T r fp mp ^^ n) s)"
    by simp
  from unat_iter_loop_body [OF this, of T fp mp] Suc show ?case
    by simp
qed

lemma funpow_count_le:
  assumes "\<forall>k<n. loop_cond r ((loop_body T r fp mp ^^ k) s)"
  shows "n \<le> unat (m_max_iterations r) - unat (iter s)"
proof (cases n)
  case 0
  then show ?thesis by simp
next
  case (Suc m)
  with assms have c: "loop_cond r ((loop_body T r fp mp ^^ m) s)"
    and "\<forall>k<m. loop_cond r ((loop_body T r fp mp ^^ k) s)"
    by simp_all
  from unat_iter_funpow [OF this(2)]
  have "unat (iter ((loop_body T r fp mp ^^ m) s)) = unat (iter s) + m" .
  moreover from c have "unat (iter ((loop_body T r fp mp ^^ m) s)) < unat (m_max_iterations r)"
    by (simp add: loop_cond_def word_less_nat_alt)
  ultimately show ?thesis
    using Suc by simp
qed

lemma calls_loop_body:
  "\<exists>f p s2 w q f' m' q' s2'. calls (loop_body T r fp mp s) =
     calls s @ [Call_comparer f p s2 w, Call_modify_probabilities q, Call_compute f' m' q' s2']"
  by (simp add: loop_body_def Let_def split: prod.splits)

lemma E_steps_loop_body:
  "length (filter is_E_step (calls (loop_body T r fp mp s)))
     = Suc (length (filter is_E_step (calls s)))"
  using calls_loop_body [of T r fp mp s] by auto

lemma M_steps_loop_body:
  "length (filter is_M_step (calls (loop_body T r fp mp s)))
     = Suc (length (filter is_M_step (calls s)))"
  using calls_loop_body [of T r fp mp s] by auto

lemma direct_loop_body:
  "filter is_direct (calls (loop_body T r fp mp s)) = filter is_direct (calls s)"
  using calls_loop_body [of T r fp mp s] by auto

lemma E_steps_funpow:
  "length (filter is_E_step (calls ((loop_body T r fp mp ^^ n) s)))
     = length (filter is_E_step (calls s)) + n"
  by (induction n) (simp_all add: E_steps_loop_body)

lemma M_steps_funpow:
  "length (filter is_M_step (calls ((loop_body T r fp mp ^^ n) s)))
     = length (filter is_M_step (calls s)) + n"
  by (induction n) (simp_all add: M_steps_loop_body)

lemma direct_funpow:
  "filter is_direct (calls ((loop_body T r fp mp ^^ n) s)) = filter is_direct (calls s)"
  by (induction n) (simp_all add: direct_loop_body)

lemma calls_run_entry:
  "filter is_E_step (calls (run_entry E T r fixed0 moving0)) = []"
  "filter is_M_step (calls (run_entry E T r fixed0 moving0)) = []"
  "filter is_direct (calls (run_entry E T r fixed0 moving0)) = []"
  by (simp_all add: run_entry_def Let_def)

lemma iter_run_entry: "iter (run_entry E T r fixed0 moving0) = 0"
  by (simp add: run_entry_def Let_def)

lemma iterations_run_exit:
  "iterations (fst (run_exit E T r fixed0 moving0 s)) = iter s"
  by (simp add: run_exit_def Let_def split: prod.splits)

lemma steps_run_exit:
  "filter is_E_step (snd (snd (run_exit E T r fixed0 moving0 s))) = filter is_E_step (calls s)"
  "filter is_M_step (snd (snd (run_exit E T r fixed0 moving0 s))) = filter is_M_step (calls s)"
  by (simp_all add: run_exit_def Let_def split: prod.splits)

lemma ntol_loop_body:
  "ntol (loop_body T r fp mp s) =
     \<bar>(l (fst (modify_probabilities T
             (m_comparer r fp (points (result s)) (sigma2 (result s)) (m_outliers r))
             (transform s))) - l_prev s)
      / l (fst (modify_probabilities T
             (m_comparer r fp (points (result s)) (sigma2 (result s)) (m_outliers r))
             (transform s)))\<bar>"
  by (simp add: loop_body_def Let_def split: prod.splits)

lemma l_prev_loop_body:
  "l_prev (loop_body T r fp mp s) =
     l (fst (modify_probabilities T
             (m_comparer r fp (points (result s)) (sigma2 (result s)) (m_outliers r))
             (transform s)))"
  by (simp add: loop_body_def Let_def split: prod.splits)

lemma transform_loop_body:
  "transform (loop_body T r fp mp s) =
     snd (compute T fp mp
       (fst (modify_probabilities T
          (m_comparer r fp (points (result s)) (sigma2 (result s)) (m_outliers r))
          (transform s)))
       (sigma2 (result s))
       (snd (modify_probabilities T
          (m_comparer r fp (points (result s)) (sigma2 (result s)) (m_outliers r))
          (transform s))))"
  by (simp add: loop_body_def Let_def split: prod.splits)

lemma result_loop_body:
  "result (loop_body T r fp mp s) =
     fst (compute T fp mp
       (fst (modify_probabilities T
          (m_comparer r fp (points (result s)) (sigma2 (result s)) (m_outliers r))
          (transform s)))
       (sigma2 (result s))
       (snd (modify_probabilities T
          (m_comparer r fp (points (result s)) (sigma2 (result s)) (m_outliers r))
          (transform s))))"
  by (simp add: loop_body_def Let_def split: prod.splits)

lemma locals_after_Suc:
  "locals_after E T r fixed0 moving0 (Suc k)
     = loop_body T r (fixed_ptr E r fixed0 moving0) (moving_ptr E r fixed0 moving0)
         (locals_after E T r fixed0 moving0 k)"
  by (simp add: locals_after_def)

lemma direct_em_loop:
  "filter is_direct (calls (em_loop T r fp mp s)) = filter is_direct (calls s)"
proof -
  from em_loop_funpow [of T r fp mp s] obtain n where
    "em_loop T r fp mp s = (loop_body T r fp mp ^^ n) s"
    by blast
  then show ?thesis
    by (simp add: direct_funpow)
qed

lemma em_loop_zero:
  "m_max_iterations r = 0 \<Longrightarrow> em_loop T r fp mp s = s"
  by (simp add: em_loop.simps [of T r fp mp s] loop_cond_def)

subsection \<open>Division by zero, comparison with NaN\<close>

lemma relative_change_zero:
  "\<bar>(Fin 0 - x) / Fin 0\<bar> = (if x = Fin 0 \<or> x = NaN then NaN else PInf)"
  by (cases x) (simp_all add: minus_double_def is_neg_def)

lemma not_less_NaN: "\<not> x < NaN"
  by (cases x) simp_all

section \<open>After the loop\<close>

lemma calls_run_exit:
  "snd (snd (run_exit E T r fixed0 moving0 s))
     = calls s
       @ (if m_normalize r then [Call_denormalize (cpd_normalize E fixed0 moving0)] else [])
       @ (if m_correspondence r
          then [Call_DirectComparer fixed0 (points (fst (run_exit E T r fixed0 moving0 s)))
                  (m_sigma2 r) (m_outliers r)]
          else [])"
  by (simp add: run_exit_def Let_def split: prod.splits)

lemma correspondence_run_exit_on:
  "m_correspondence r \<Longrightarrow>
   correspondence (fst (run_exit E T r fixed0 moving0 s))
     = Probabilities.correspondence
         (DirectComparer_compute E fixed0 (points (fst (run_exit E T r fixed0 moving0 s)))
            (m_sigma2 r) (m_outliers r))"
  by (simp add: run_exit_def Let_def split: prod.splits)

lemma correspondence_run_exit_off:
  "\<not> m_correspondence r \<Longrightarrow>
   correspondence (fst (run_exit E T r fixed0 moving0 s))
     = correspondence
         (if m_normalize r
          then fst (denormalize T (cpd_normalize E fixed0 moving0) (result s) (transform s))
          else result s)"
  by (simp add: run_exit_def Let_def split: prod.splits)

lemma points_run_exit:
  "points (fst (run_exit E T r fixed0 moving0 s))
     = points
         (if m_normalize r
          then fst (denormalize T (cpd_normalize E fixed0 moving0) (result s) (transform s))
          else result s)"
  by (simp add: run_exit_def Let_def split: prod.splits)

section \<open>The nonrigid transform in the loop\<close>

lemma Nonrigid_loop_body_fixed:
  "m_g (transform (loop_body (Nonrigid_Transform affinity solve) r fp mp s)) = m_g (transform s)"
  "m_lambda (transform (loop_body (Nonrigid_Transform affinity solve) r fp mp s))
     = m_lambda (transform s)"
  "m_beta (transform (loop_body (Nonrigid_Transform affinity solve) r fp mp s))
     = m_beta (transform s)"
  by (simp_all add: transform_loop_body Nonrigid_Transform_def Nonrigid_compute_def Let_def)

lemma Nonrigid_funpow_fixed:
  "m_g (transform ((loop_body (Nonrigid_Transform affinity solve) r fp mp ^^ k) s))
     = m_g (transform s)
   \<and> m_lambda (transform ((loop_body (Nonrigid_Transform affinity solve) r fp mp ^^ k) s))
     = m_lambda (transform s)
   \<and> m_beta (transform ((loop_body (Nonrigid_Transform affinity solve) r fp mp ^^ k) s))
     = m_beta (transform s)"
  by (induction k) (simp_all add: Nonrigid_loop_body_fixed)

lemma Nonrigid_run_entry:
  "m_g (transform (run_entry E (Nonrigid_Transform affinity solve) r fixed0 moving0))
     = affinity (moving_ptr E r fixed0 moving0) (moving_ptr E r fixed0 moving0)
         (m_beta (m_transform r))"
  "m_lambda (transform (run_entry E (Nonrigid_Transform affinity solve) r fixed0 moving0))
     = m_lambda (m_transform r)"
  "m_beta (transform (run_entry E (Nonrigid_Transform affinity solve) r fixed0 moving0))
     = m_beta (m_transform r)"
  by (simp_all add: run_entry_def Let_def Nonrigid_Transform_def Nonrigid_init_def)

lemma Nonrigid_locals_after:
  "m_g (transform (locals_after E (Nonrigid_Transform affinity solve) r fixed0 moving0 k))
     = affinity (moving_ptr E r fixed0 moving0) (moving_ptr E r fixed0 moving0)
         (m_beta (m_transform r))"
  "m_lambda (transform (locals_after E (Nonrigid_Transform affinity solve) r fixed0 moving0 k))
     = m_lambda (m_transform r)"
  by (simp_all add: locals_after_def Nonrigid_funpow_fixed Nonrigid_run_entry)

lemma Nonrigid_correspondence_loop_body:
  "correspondence (result (loop_body (Nonrigid_Transform affinity solve) r fp mp s)) = []"
  by (simp add: result_loop_body Nonrigid_Transform_def Nonrigid_compute_def Let_def
      Nonrigid_Result_def)

lemma Nonrigid_correspondence_funpow:
  "correspondence (result s) = [] \<Longrightarrow>
   correspondence (result ((loop_body (Nonrigid_Transform affinity solve) r fp mp ^^ n) s)) = []"
  by (cases n) (simp_all add: Nonrigid_correspondence_loop_body)

lemma Nonrigid_correspondence_em_loop:
  assumes "correspondence (result s) = []"
  shows "correspondence (result (em_loop (Nonrigid_Transform affinity solve) r fp mp s)) = []"
proof -
  from em_loop_funpow [of "Nonrigid_Transform affinity solve" r fp mp s] obtain n where
    "em_loop (Nonrigid_Transform affinity solve) r fp mp s
       = (loop_body (Nonrigid_Transform affinity solve) r fp mp ^^ n) s"
    by blast
  with Nonrigid_correspondence_funpow [OF assms] show ?thesis
    by simp
qed

lemma Nonrigid_correspondence_run:
  assumes "\<not> m_correspondence r"
  shows "correspondence (fst (run E (Nonrigid_Transform affinity solve) r fixed0 moving0)) = []"
proof -
  have "correspondence
      (result (run_entry E (Nonrigid_Transform affinity solve) r fixed0 moving0)) = []"
    by (simp add: run_entry_def Let_def Nonrigid_Transform_def Nonrigid_Result_def)
  from Nonrigid_correspondence_em_loop [OF this] assms show ?thesis
    by (simp add: run_def correspondence_run_exit_off Nonrigid_Transform_def
        Nonrigid_denormalize_def)
qed

section \<open>The claims\<close>

text \<open>
  C1. The body of the loop is executed only while the condition of lines 164 and 165
  holds (\<open>iter < m_max_iterations\<close>, \<open>ntol > m_tolerance\<close> and
  \<open>sigma2 > 10 \<cdot> epsilon\<close>), and the loop ends: there is a number \<open>n\<close> of executions of
  the body, at most \<open>m_max_iterations\<close>, such that the condition holds before each of
  them and fails after the last. The Result's \<open>iterations\<close> is \<open>n\<close>, and \<open>n\<close> is the
  number of E-steps and of M-steps that the run has made.
\<close>

theorem run_iterations:
  "\<exists>n. n \<le> unat (m_max_iterations r)
     \<and> (\<forall>k<n. loop_cond r (locals_after E T r fixed0 moving0 k))
     \<and> \<not> loop_cond r (locals_after E T r fixed0 moving0 n)
     \<and> em_loop T r (fixed_ptr E r fixed0 moving0) (moving_ptr E r fixed0 moving0)
          (run_entry E T r fixed0 moving0) = locals_after E T r fixed0 moving0 n
     \<and> unat (iterations (fst (run E T r fixed0 moving0))) = n
     \<and> length (filter is_E_step (snd (snd (run E T r fixed0 moving0)))) = n
     \<and> length (filter is_M_step (snd (snd (run E T r fixed0 moving0)))) = n"
proof -
  let ?fp = "fixed_ptr E r fixed0 moving0" and ?mp = "moving_ptr E r fixed0 moving0"
  let ?s0 = "run_entry E T r fixed0 moving0"
  from em_loop_funpow [of T r ?fp ?mp ?s0] obtain n where
    n: "em_loop T r ?fp ?mp ?s0 = (loop_body T r ?fp ?mp ^^ n) ?s0"
       "\<forall>k<n. loop_cond r ((loop_body T r ?fp ?mp ^^ k) ?s0)"
       "\<not> loop_cond r ((loop_body T r ?fp ?mp ^^ n) ?s0)"
    by blast
  have "n \<le> unat (m_max_iterations r)"
    using funpow_count_le [OF n(2)] by simp
  moreover have "unat (iterations (fst (run E T r fixed0 moving0))) = n"
    using unat_iter_funpow [OF n(2)]
    by (simp add: run_def iterations_run_exit n(1) iter_run_entry)
  moreover have "length (filter is_E_step (snd (snd (run E T r fixed0 moving0)))) = n"
    by (simp add: run_def steps_run_exit n(1) E_steps_funpow calls_run_entry)
  moreover have "length (filter is_M_step (snd (snd (run E T r fixed0 moving0)))) = n"
    by (simp add: run_def steps_run_exit n(1) M_steps_funpow calls_run_entry)
  ultimately show ?thesis
    using n unfolding locals_after_def by blast
qed

text \<open>
  The small run makes two iterations and stops at the cap of two, the relative change
  still above the tolerance.
\<close>

theorem run_iterations_witness:
  "unat (iterations (fst (run sample_Env sample_Transform sample_Runner
      sample_fixed sample_moving))) = 2
   \<and> 2 \<le> unat (m_max_iterations sample_Runner)
   \<and> loop_cond sample_Runner
       (locals_after sample_Env sample_Transform sample_Runner sample_fixed sample_moving 0)
   \<and> loop_cond sample_Runner
       (locals_after sample_Env sample_Transform sample_Runner sample_fixed sample_moving 1)
   \<and> \<not> loop_cond sample_Runner
       (locals_after sample_Env sample_Transform sample_Runner sample_fixed sample_moving 2)
   \<and> length (filter is_E_step (snd (snd (run sample_Env sample_Transform sample_Runner
      sample_fixed sample_moving)))) = 2
   \<and> length (filter is_M_step (snd (snd (run sample_Env sample_Transform sample_Runner
      sample_fixed sample_moving)))) = 2
   \<and> m_tolerance sample_Runner
       < ntol (locals_after sample_Env sample_Transform sample_Runner
           sample_fixed sample_moving 2)"
proof -
  have two: "unat (iterations (fst (run sample_Env sample_Transform sample_Runner
      sample_fixed sample_moving))) = 2"
    by (simp add: eval_defs)
  from run_iterations [of sample_Runner sample_Env sample_Transform sample_fixed sample_moving]
  obtain n where n: "n \<le> unat (m_max_iterations sample_Runner)"
    "\<forall>k<n. loop_cond sample_Runner
       (locals_after sample_Env sample_Transform sample_Runner sample_fixed sample_moving k)"
    "\<not> loop_cond sample_Runner
       (locals_after sample_Env sample_Transform sample_Runner sample_fixed sample_moving n)"
    "em_loop sample_Transform sample_Runner
        (fixed_ptr sample_Env sample_Runner sample_fixed sample_moving)
        (moving_ptr sample_Env sample_Runner sample_fixed sample_moving)
        (run_entry sample_Env sample_Transform sample_Runner sample_fixed sample_moving)
      = locals_after sample_Env sample_Transform sample_Runner sample_fixed sample_moving n"
    "unat (iterations (fst (run sample_Env sample_Transform sample_Runner
      sample_fixed sample_moving))) = n"
    "length (filter is_E_step (snd (snd (run sample_Env sample_Transform sample_Runner
      sample_fixed sample_moving)))) = n"
    "length (filter is_M_step (snd (snd (run sample_Env sample_Transform sample_Runner
      sample_fixed sample_moving)))) = n"
    by blast
  from two n(5) have "n = 2" by simp
  moreover
  from n(4) two n(5) have "ntol (locals_after sample_Env sample_Transform sample_Runner
      sample_fixed sample_moving 2)
    = ntol (em_loop sample_Transform sample_Runner
        (fixed_ptr sample_Env sample_Runner sample_fixed sample_moving)
        (moving_ptr sample_Env sample_Runner sample_fixed sample_moving)
        (run_entry sample_Env sample_Transform sample_Runner sample_fixed sample_moving))"
    by simp
  then have "m_tolerance sample_Runner
       < ntol (locals_after sample_Env sample_Transform sample_Runner
           sample_fixed sample_moving 2)"
    by (simp add: eval_defs)
  ultimately show ?thesis
    using n by simp
qed

text \<open>
  C2. In every iteration (\<open>k\<close> counts the executions of the body before it) the M-step of
  the nonrigid transform sets \<open>m_w\<close> to what the solver returns for the system
  \<open>(diag(p1) \<cdot> G + m_lambda \<cdot> sigma2 \<cdot> I) \<cdot> W = px - diag(p1) \<cdot> moving\<close>, and the new
  points are \<open>moving + G \<cdot> m_w\<close>. Here \<open>G\<close> is the kernel \<open>affinity moving moving m_beta\<close>
  that \<open>init\<close> has computed, the same in every iteration; \<open>moving\<close> is \<^verbatim>\<open>*moving_ptr\<close>,
  the moving cloud after the normalization, not the points of the iteration before; and
  \<open>p1\<close>, \<open>px\<close> and \<open>sigma2\<close> are those of the iteration.
\<close>

theorem nonrigid_m_step:
  "m_g (transform (locals_after E (Nonrigid_Transform affinity solve) r fixed0 moving0 k))
     = affinity (moving_ptr E r fixed0 moving0) (moving_ptr E r fixed0 moving0)
         (m_beta (m_transform r))
   \<and> m_w (transform (locals_after E (Nonrigid_Transform affinity solve) r fixed0 moving0 (Suc k)))
     = solve
         (mat_add
            (asDiagonal_mul
               (p1 (m_comparer r (fixed_ptr E r fixed0 moving0)
                  (points (result (locals_after E (Nonrigid_Transform affinity solve) r
                     fixed0 moving0 k)))
                  (sigma2 (result (locals_after E (Nonrigid_Transform affinity solve) r
                     fixed0 moving0 k)))
                  (m_outliers r)))
               (affinity (moving_ptr E r fixed0 moving0) (moving_ptr E r fixed0 moving0)
                  (m_beta (m_transform r))))
            (scalar_mul
               (m_lambda (m_transform r)
                * sigma2 (result (locals_after E (Nonrigid_Transform affinity solve) r
                     fixed0 moving0 k)))
               (Identity (rows (moving_ptr E r fixed0 moving0))
                  (rows (moving_ptr E r fixed0 moving0)))))
         (mat_sub
            (px (m_comparer r (fixed_ptr E r fixed0 moving0)
                  (points (result (locals_after E (Nonrigid_Transform affinity solve) r
                     fixed0 moving0 k)))
                  (sigma2 (result (locals_after E (Nonrigid_Transform affinity solve) r
                     fixed0 moving0 k)))
                  (m_outliers r)))
            (asDiagonal_mul
               (p1 (m_comparer r (fixed_ptr E r fixed0 moving0)
                  (points (result (locals_after E (Nonrigid_Transform affinity solve) r
                     fixed0 moving0 k)))
                  (sigma2 (result (locals_after E (Nonrigid_Transform affinity solve) r
                     fixed0 moving0 k)))
                  (m_outliers r)))
               (moving_ptr E r fixed0 moving0)))
   \<and> points (result (locals_after E (Nonrigid_Transform affinity solve) r fixed0 moving0 (Suc k)))
     = mat_add (moving_ptr E r fixed0 moving0)
         (mat_mul
            (affinity (moving_ptr E r fixed0 moving0) (moving_ptr E r fixed0 moving0)
               (m_beta (m_transform r)))
            (m_w (transform (locals_after E (Nonrigid_Transform affinity solve) r
               fixed0 moving0 (Suc k)))))"
proof -
  let ?T = "Nonrigid_Transform affinity solve"
  let ?s = "locals_after E ?T r fixed0 moving0 k"
  have T: "compute ?T = Nonrigid_compute solve"
    "modify_probabilities ?T = (\<lambda>p t. (Nonrigid_modify_probabilities p t, t))"
    by (simp_all add: Nonrigid_Transform_def)
  have P: "p1 (Nonrigid_modify_probabilities p t) = p1 p"
    "px (Nonrigid_modify_probabilities p t) = px p" for p t
    by (simp_all add: Nonrigid_modify_probabilities_def)
  show ?thesis
    by (simp add: locals_after_Suc transform_loop_body result_loop_body T P
        Nonrigid_compute_def Let_def Nonrigid_locals_after)
qed

text \<open>
  C3, as stated, fails: line 169 divides by \<open>probabilities.l\<close> without a guard. In the
  small run with the comparer whose likelihood is 0, the first iteration has
  \<open>L = 0\<close> and \<open>L_prev = 0\<close>, its relative change is NaN, and the loop ends after
  that iteration.
\<close>

theorem relative_change_counterexample:
  "ntol (locals_after sample_Env sample_Transform
      (set_comparer sample_comparer0 sample_Runner) sample_fixed sample_moving 1) = NaN
   \<and> l (fst (modify_probabilities sample_Transform
        (sample_comparer0 sample_fixed sample_moving (Fin 1) (Fin (1 / 10)))
        (transform (locals_after sample_Env sample_Transform
      (set_comparer sample_comparer0 sample_Runner) sample_fixed sample_moving 0)))) = Fin 0
   \<and> unat (iterations (fst (run sample_Env sample_Transform
      (set_comparer sample_comparer0 sample_Runner) sample_fixed sample_moving))) = 1"
  by (simp add: eval_defs locals_after_def)

text \<open>
  C3, amended. In every iteration the relative change is \<open>|(L - L_prev) / L|\<close>, where
  \<open>L\<close> is the likelihood after \<open>modify_probabilities\<close>, with no guard on \<open>L\<close>: when \<open>L\<close>
  is zero it is NaN if \<open>L_prev\<close> is zero or NaN, and plus infinity otherwise. When it is
  NaN the condition of the loop fails.
\<close>

theorem relative_change_unguarded:
  "ntol (loop_body T r fp mp s) =
     \<bar>(l (fst (modify_probabilities T
             (m_comparer r fp (points (result s)) (sigma2 (result s)) (m_outliers r))
             (transform s))) - l_prev s)
      / l (fst (modify_probabilities T
             (m_comparer r fp (points (result s)) (sigma2 (result s)) (m_outliers r))
             (transform s)))\<bar>
   \<and> (l (fst (modify_probabilities T
             (m_comparer r fp (points (result s)) (sigma2 (result s)) (m_outliers r))
             (transform s))) = Fin 0
        \<longrightarrow> ntol (loop_body T r fp mp s)
              = (if l_prev s = Fin 0 \<or> l_prev s = NaN then NaN else PInf))
   \<and> (ntol (loop_body T r fp mp s) = NaN \<longrightarrow> \<not> loop_cond r (loop_body T r fp mp s))"
  by (simp add: ntol_loop_body relative_change_zero loop_cond_def not_less_NaN)

text \<open>
  The first iteration of the small run with the comparer whose likelihood is 0.
\<close>

theorem relative_change_unguarded_witness:
  "l (fst (modify_probabilities sample_Transform
        (m_comparer (set_comparer sample_comparer0 sample_Runner) sample_fixed
           (points (result (run_entry sample_Env sample_Transform
              (set_comparer sample_comparer0 sample_Runner) sample_fixed sample_moving)))
           (sigma2 (result (run_entry sample_Env sample_Transform
              (set_comparer sample_comparer0 sample_Runner) sample_fixed sample_moving)))
           (m_outliers (set_comparer sample_comparer0 sample_Runner)))
        (transform (run_entry sample_Env sample_Transform
              (set_comparer sample_comparer0 sample_Runner) sample_fixed sample_moving)))) = Fin 0
   \<and> ntol (loop_body sample_Transform (set_comparer sample_comparer0 sample_Runner)
        sample_fixed sample_moving
        (run_entry sample_Env sample_Transform
              (set_comparer sample_comparer0 sample_Runner) sample_fixed sample_moving)) = NaN
   \<and> \<not> loop_cond (set_comparer sample_comparer0 sample_Runner)
        (loop_body sample_Transform (set_comparer sample_comparer0 sample_Runner)
        sample_fixed sample_moving
        (run_entry sample_Env sample_Transform
              (set_comparer sample_comparer0 sample_Runner) sample_fixed sample_moving))"
proof -
  let ?r = "set_comparer sample_comparer0 sample_Runner"
  let ?s = "run_entry sample_Env sample_Transform ?r sample_fixed sample_moving"
  have L: "l (fst (modify_probabilities sample_Transform
        (m_comparer ?r sample_fixed (points (result ?s)) (sigma2 (result ?s)) (m_outliers ?r))
        (transform ?s))) = Fin 0"
    by (simp add: eval_defs)
  have P: "l_prev ?s = Fin 0"
    by (simp add: run_entry_def Let_def)
  from relative_change_unguarded [of sample_Transform ?r sample_fixed sample_moving ?s] L P
  show ?thesis
    by (simp add: minus_double_def)
qed

text \<open>
  C4, as stated, fails: no setter and no line of \<^verbatim>\<open>run\<close> checks a configuration value. A
  tolerance of \<open>-1\<close> and an outlier weight of \<open>2\<close> are stored as they are, and \<^verbatim>\<open>run\<close>
  returns a Result after two iterations with both values still in place.
\<close>

theorem configuration_counterexample:
  "get_tolerance (set_tolerance (Fin (- 1)) sample_Runner) = Fin (- 1)
   \<and> get_outliers (set_outliers (Fin 2) sample_Runner) = Fin 2
   \<and> iterations (fst (run sample_Env sample_Transform
          (set_outliers (Fin 2) (set_tolerance (Fin (- 1)) sample_Runner))
          sample_fixed sample_moving)) = 2
   \<and> get_tolerance (fst (snd (run sample_Env sample_Transform
          (set_outliers (Fin 2) (set_tolerance (Fin (- 1)) sample_Runner))
          sample_fixed sample_moving))) = Fin (- 1)
   \<and> get_outliers (fst (snd (run sample_Env sample_Transform
          (set_outliers (Fin 2) (set_tolerance (Fin (- 1)) sample_Runner))
          sample_fixed sample_moving))) = Fin 2"
  by (simp add: eval_defs)

text \<open>
  C4, amended. Configuration values are not validated: every setter stores the value it
  is given, whatever it is, and \<^verbatim>\<open>run\<close> leaves every member of the runner but
  \<open>m_transform\<close> as it was, so it neither rejects nor clamps a configuration value.
\<close>

theorem configuration_unchecked:
  "get_tolerance (set_tolerance x r) = x
   \<and> get_outliers (set_outliers x r) = x
   \<and> get_sigma2 (set_sigma2 x r) = x
   \<and> get_max_iterations (set_max_iterations n r) = n
   \<and> get_normalize (set_normalize b r) = b
   \<and> get_correspondence (set_correspondence b r) = b
   \<and> (fst (snd (run E T r fixed0 moving0)))\<lparr>m_transform := m_transform r\<rparr> = r"
  by (simp add: runner_defs run_def run_exit_def Let_def split: prod.splits)

text \<open>
  C5. The calls of a run are those of the loop, none of them a call of the direct
  comparer, then the call of \<open>denormalize\<close> when the points are normalized, then, when
  the correspondence is asked for, one call of the direct comparer on the fixed cloud
  as it was given and the points of the returned Result, whatever the configured
  comparer is; its correspondence vector is that of the Result. When the correspondence
  is not asked for, there is no call of the direct comparer and \<^verbatim>\<open>run\<close> does not write
  the Result's correspondence vector; with the nonrigid transform that vector is empty.
\<close>

theorem correspondence_pass:
  "filter is_direct
     (calls (em_loop T r (fixed_ptr E r fixed0 moving0) (moving_ptr E r fixed0 moving0)
        (run_entry E T r fixed0 moving0))) = []
   \<and> snd (snd (run E T r fixed0 moving0))
     = calls (em_loop T r (fixed_ptr E r fixed0 moving0) (moving_ptr E r fixed0 moving0)
         (run_entry E T r fixed0 moving0))
       @ (if m_normalize r then [Call_denormalize (cpd_normalize E fixed0 moving0)] else [])
       @ (if m_correspondence r
          then [Call_DirectComparer fixed0 (points (fst (run E T r fixed0 moving0)))
                  (m_sigma2 r) (m_outliers r)]
          else [])
   \<and> (m_correspondence r \<longrightarrow>
        length (filter is_direct (snd (snd (run E T r fixed0 moving0)))) = 1
        \<and> correspondence (fst (run E T r fixed0 moving0))
          = Probabilities.correspondence
              (DirectComparer_compute E fixed0 (points (fst (run E T r fixed0 moving0)))
                 (m_sigma2 r) (m_outliers r)))
   \<and> (\<not> m_correspondence r \<longrightarrow>
        filter is_direct (snd (snd (run E T r fixed0 moving0))) = []
        \<and> correspondence (fst (run E T r fixed0 moving0))
          = correspondence
              (if m_normalize r
               then fst (denormalize T (cpd_normalize E fixed0 moving0)
                      (result (em_loop T r (fixed_ptr E r fixed0 moving0)
                         (moving_ptr E r fixed0 moving0) (run_entry E T r fixed0 moving0)))
                      (transform (em_loop T r (fixed_ptr E r fixed0 moving0)
                         (moving_ptr E r fixed0 moving0) (run_entry E T r fixed0 moving0))))
               else result (em_loop T r (fixed_ptr E r fixed0 moving0)
                         (moving_ptr E r fixed0 moving0) (run_entry E T r fixed0 moving0))))
   \<and> (\<not> m_correspondence rn \<longrightarrow>
        correspondence (fst (run E (Nonrigid_Transform affinity solve) rn fixed0 moving0)) = [])"
proof -
  let ?s = "em_loop T r (fixed_ptr E r fixed0 moving0) (moving_ptr E r fixed0 moving0)
        (run_entry E T r fixed0 moving0)"
  have d: "filter is_direct (calls ?s) = []"
    by (simp add: direct_em_loop calls_run_entry)
  have c: "snd (snd (run E T r fixed0 moving0))
     = calls ?s
       @ (if m_normalize r then [Call_denormalize (cpd_normalize E fixed0 moving0)] else [])
       @ (if m_correspondence r
          then [Call_DirectComparer fixed0 (points (fst (run E T r fixed0 moving0)))
                  (m_sigma2 r) (m_outliers r)]
          else [])"
    unfolding run_def by (rule calls_run_exit)
  have n: "filter is_direct (snd (snd (run E T r fixed0 moving0)))
     = (if m_correspondence r
          then [Call_DirectComparer fixed0 (points (fst (run E T r fixed0 moving0)))
                  (m_sigma2 r) (m_outliers r)]
          else [])"
    by (simp add: c d)
  show ?thesis
    using d c n Nonrigid_correspondence_run [of rn E affinity solve fixed0 moving0]
    by (simp add: run_def correspondence_run_exit_on correspondence_run_exit_off)
qed

text \<open>
  The small run, normalized and with the correspondence, and as it is, without.
\<close>

theorem correspondence_pass_witness:
  "m_correspondence (set_correspondence True (set_normalize True sample_Runner))
   \<and> length (filter is_direct (snd (snd (run sample_Env sample_Transform
        (set_correspondence True (set_normalize True sample_Runner))
        sample_fixed sample_moving)))) = 1
   \<and> correspondence (fst (run sample_Env sample_Transform
        (set_correspondence True (set_normalize True sample_Runner))
        sample_fixed sample_moving)) = [0]
   \<and> last (snd (snd (run sample_Env sample_Transform
        (set_correspondence True (set_normalize True sample_Runner))
        sample_fixed sample_moving)))
     = Call_DirectComparer sample_fixed
         (points (fst (run sample_Env sample_Transform
            (set_correspondence True (set_normalize True sample_Runner))
            sample_fixed sample_moving)))
         (Fin 0) (Fin (1 / 10))
   \<and> \<not> m_correspondence sample_Runner
   \<and> filter is_direct (snd (snd (run sample_Env sample_Transform sample_Runner
        sample_fixed sample_moving))) = []
   \<and> correspondence (fst (run sample_Env sample_Transform sample_Runner
        sample_fixed sample_moving)) = []"
proof -
  let ?r = "set_correspondence True (set_normalize True sample_Runner)"
  let ?p = "points (fst (run sample_Env sample_Transform ?r sample_fixed sample_moving))"
  have on: "m_correspondence ?r" and off: "\<not> m_correspondence sample_Runner"
    by (simp_all add: sample_defs runner_defs)
  have c: "Probabilities.correspondence (DirectComparer_compute sample_Env sample_fixed
       ?p (m_sigma2 ?r) (m_outliers ?r)) = [0]"
    by (simp add: eval_defs)
  have m: "m_sigma2 ?r = Fin 0" "m_outliers ?r = Fin (1 / 10)"
    by (simp_all add: sample_defs runner_defs)
  from correspondence_pass [of sample_Transform ?r sample_Env sample_fixed sample_moving
      sample_Runner sample_affinity sample_solve]
  have "length (filter is_direct (snd (snd (run sample_Env sample_Transform ?r
          sample_fixed sample_moving)))) = 1"
    "correspondence (fst (run sample_Env sample_Transform ?r sample_fixed sample_moving)) = [0]"
    "last (snd (snd (run sample_Env sample_Transform ?r sample_fixed sample_moving)))
       = Call_DirectComparer sample_fixed ?p (Fin 0) (Fin (1 / 10))"
    using on c m by simp_all
  moreover
  from correspondence_pass [of sample_Transform sample_Runner sample_Env sample_fixed
      sample_moving sample_Runner sample_affinity sample_solve]
  have "filter is_direct (snd (snd (run sample_Env sample_Transform sample_Runner
        sample_fixed sample_moving))) = []"
    "correspondence (fst (run sample_Env (Nonrigid_Transform sample_affinity sample_solve)
        sample_Runner sample_fixed sample_moving)) = []"
    using off by simp_all
  ultimately show ?thesis
    using on off by (simp add: sample_Transform_def)
qed

text \<open>
  C6. The loop is entered with \<open>sigma2\<close> the configured \<open>m_sigma2\<close> when that is not
  equal to 0, and what \<^verbatim>\<open>default_sigma2\<close> returns for \<^verbatim>\<open>*fixed_ptr\<close> and \<^verbatim>\<open>*moving_ptr\<close>
  when it is; with the \<^verbatim>\<open>default_sigma2\<close> of the spec, that is the sum of the squared
  distances of all pairs of a fixed and a moving point, divided by \<open>D \<cdot> N \<cdot> M\<close>.
\<close>

theorem initial_sigma2:
  "sigma2 (result (run_entry E T r fixed0 moving0))
     = (if deq (m_sigma2 r) (Fin 0)
        then default_sigma2 E (fixed_ptr E r fixed0 moving0) (moving_ptr E r fixed0 moving0)
        else m_sigma2 r)
   \<and> sigma2 (result (run_entry (E\<lparr>default_sigma2 := spec_default_sigma2\<rparr>) T r fixed0 moving0))
     = (if deq (m_sigma2 r) (Fin 0)
        then spec_default_sigma2 (fixed_ptr E r fixed0 moving0) (moving_ptr E r fixed0 moving0)
        else m_sigma2 r)"
  by (simp add: run_entry_def Let_def fixed_ptr_def moving_ptr_def deq_def)

text \<open>
  C7. \<open>modify_probabilities\<close> of the nonrigid transform adds
  \<open>m_lambda / 2 \<cdot> trace (m_w\<^sup>T \<cdot> m_g \<cdot> m_w)\<close> to the likelihood \<open>l\<close>, and the loop's body
  computes the relative change \<open>ntol\<close> from that sum and keeps the sum as the likelihood
  of the iteration for the next one.
\<close>

theorem nonrigid_penalty:
  "modify_probabilities (Nonrigid_Transform affinity solve) probabilities t
     = (probabilities\<lparr>l := l probabilities
          + m_lambda t / Fin 2
            * trace (mat_mul (mat_mul (mat_transpose (m_w t)) (m_g t)) (m_w t))\<rparr>, t)
   \<and> ntol (loop_body (Nonrigid_Transform affinity solve) r fp mp s)
     = \<bar>(l (m_comparer r fp (points (result s)) (sigma2 (result s)) (m_outliers r))
           + m_lambda (transform s) / Fin 2
             * trace (mat_mul (mat_mul (mat_transpose (m_w (transform s))) (m_g (transform s)))
                 (m_w (transform s)))
         - l_prev s)
        / (l (m_comparer r fp (points (result s)) (sigma2 (result s)) (m_outliers r))
           + m_lambda (transform s) / Fin 2
             * trace (mat_mul (mat_mul (mat_transpose (m_w (transform s))) (m_g (transform s)))
                 (m_w (transform s))))\<bar>
   \<and> l_prev (loop_body (Nonrigid_Transform affinity solve) r fp mp s)
     = l (m_comparer r fp (points (result s)) (sigma2 (result s)) (m_outliers r))
       + m_lambda (transform s) / Fin 2
         * trace (mat_mul (mat_mul (mat_transpose (m_w (transform s))) (m_g (transform s)))
             (m_w (transform s)))"
  by (simp add: ntol_loop_body l_prev_loop_body Nonrigid_Transform_def
      Nonrigid_modify_probabilities_def)

text \<open>
  C8. A runner as the constructor leaves it has \<open>max_iterations = 150\<close>,
  \<open>normalize = true\<close>, \<open>outliers = 0.1\<close>, \<open>tolerance = 1e-5\<close>, \<open>sigma2 = 0\<close> and
  \<open>correspondence = false\<close>, with the comparer of \<^verbatim>\<open>Comparer::create()\<close> and the given
  transform; with this \<open>sigma2\<close>, a run starts from what \<^verbatim>\<open>default_sigma2\<close> returns.
\<close>

theorem default_configuration:
  "get_max_iterations (new_Runner create t) = 150
   \<and> get_normalize (new_Runner create t) = True
   \<and> get_outliers (new_Runner create t) = Fin (1 / 10)
   \<and> get_tolerance (new_Runner create t) = Fin (1 / 100000)
   \<and> get_sigma2 (new_Runner create t) = Fin 0
   \<and> get_correspondence (new_Runner create t) = False
   \<and> m_comparer (new_Runner create t) = create
   \<and> m_transform (new_Runner create t) = t
   \<and> sigma2 (result (run_entry E T (new_Runner create t) fixed0 moving0))
       = default_sigma2 E (fixed_ptr E (new_Runner create t) fixed0 moving0)
           (moving_ptr E (new_Runner create t) fixed0 moving0)"
  by (simp add: runner_defs run_entry_def deq_def Let_def)

text \<open>
  C9. With \<open>max_iterations = 0\<close> the loop returns the state it is entered with: the run
  makes no E-step and no M-step, the Result's \<open>iterations\<close> is 0, and its points are the
  moving cloud as it was given when the points are not normalized, and the normalized
  moving cloud after \<open>denormalize\<close> when they are.
\<close>

theorem max_iterations_zero:
  assumes "m_max_iterations r = 0"
  shows "iterations (fst (run E T r fixed0 moving0)) = 0
   \<and> filter is_E_step (snd (snd (run E T r fixed0 moving0))) = []
   \<and> filter is_M_step (snd (snd (run E T r fixed0 moving0))) = []
   \<and> em_loop T r (fixed_ptr E r fixed0 moving0) (moving_ptr E r fixed0 moving0)
        (run_entry E T r fixed0 moving0) = run_entry E T r fixed0 moving0
   \<and> points (result (run_entry E T r fixed0 moving0)) = moving_ptr E r fixed0 moving0
   \<and> points (fst (run E T r fixed0 moving0))
     = (if m_normalize r
        then points (fst (denormalize T (cpd_normalize E fixed0 moving0)
               (result (run_entry E T r fixed0 moving0))
               (transform (run_entry E T r fixed0 moving0))))
        else moving0)"
proof -
  have "points (result (run_entry E T r fixed0 moving0)) = moving_ptr E r fixed0 moving0"
    by (simp add: run_entry_def Let_def)
  moreover have "\<not> m_normalize r \<Longrightarrow> moving_ptr E r fixed0 moving0 = moving0"
    by (simp add: moving_ptr_def)
  ultimately show ?thesis
    using assms
    by (simp add: run_def em_loop_zero iterations_run_exit steps_run_exit calls_run_entry
        points_run_exit iter_run_entry)
qed

text \<open>
  The small run with a cap of 0 iterations, normalized: its points are the moving cloud.
\<close>

theorem max_iterations_zero_witness:
  "m_max_iterations (set_max_iterations 0 (set_normalize True sample_Runner)) = 0
   \<and> iterations (fst (run sample_Env sample_Transform
        (set_max_iterations 0 (set_normalize True sample_Runner))
        sample_fixed sample_moving)) = 0
   \<and> filter is_E_step (snd (snd (run sample_Env sample_Transform
        (set_max_iterations 0 (set_normalize True sample_Runner))
        sample_fixed sample_moving))) = []
   \<and> filter is_M_step (snd (snd (run sample_Env sample_Transform
        (set_max_iterations 0 (set_normalize True sample_Runner))
        sample_fixed sample_moving))) = []
   \<and> points (fst (run sample_Env sample_Transform
        (set_max_iterations 0 (set_normalize True sample_Runner))
        sample_fixed sample_moving)) = sample_moving"
proof -
  let ?r = "set_max_iterations 0 (set_normalize True sample_Runner)"
  have z: "m_max_iterations ?r = 0" and n: "m_normalize ?r"
    by (simp_all add: sample_defs runner_defs)
  have d: "points (fst (denormalize sample_Transform
       (cpd_normalize sample_Env sample_fixed sample_moving)
       (result (run_entry sample_Env sample_Transform ?r sample_fixed sample_moving))
       (transform (run_entry sample_Env sample_Transform ?r sample_fixed sample_moving))))
     = sample_moving"
    by (simp add: eval_defs)
  from max_iterations_zero [OF z, of sample_Env sample_Transform sample_fixed sample_moving]
  show ?thesis
    using z n d by simp
qed

text \<open>
  C10. When the correspondence is asked for, the direct comparer is called last, with
  the configured \<open>m_sigma2\<close>, which \<^verbatim>\<open>run\<close> does not change, and the Result's
  correspondence vector is the one it returns. When \<open>m_sigma2\<close> is 0, the loop has
  started from what \<^verbatim>\<open>default_sigma2\<close> returns, and the direct comparer is called with
  the variance 0.
\<close>

theorem correspondence_sigma2:
  assumes "m_correspondence r"
  shows "last (snd (snd (run E T r fixed0 moving0)))
     = Call_DirectComparer fixed0 (points (fst (run E T r fixed0 moving0)))
         (m_sigma2 r) (m_outliers r)
   \<and> correspondence (fst (run E T r fixed0 moving0))
     = Probabilities.correspondence
         (DirectComparer_compute E fixed0 (points (fst (run E T r fixed0 moving0)))
            (m_sigma2 r) (m_outliers r))
   \<and> m_sigma2 (fst (snd (run E T r fixed0 moving0))) = m_sigma2 r
   \<and> (deq (m_sigma2 r) (Fin 0) \<longrightarrow>
        last (snd (snd (run E T r fixed0 moving0)))
          = Call_DirectComparer fixed0 (points (fst (run E T r fixed0 moving0)))
              (Fin 0) (m_outliers r)
        \<and> sigma2 (result (run_entry E T r fixed0 moving0))
          = default_sigma2 E (fixed_ptr E r fixed0 moving0) (moving_ptr E r fixed0 moving0))"
proof -
  have "m_sigma2 (fst (snd (run E T r fixed0 moving0))) = m_sigma2 r"
    by (simp add: run_def run_exit_def Let_def split: prod.splits)
  moreover have "sigma2 (result (run_entry E T r fixed0 moving0))
          = default_sigma2 E (fixed_ptr E r fixed0 moving0) (moving_ptr E r fixed0 moving0)"
    if "deq (m_sigma2 r) (Fin 0)"
    using that by (simp add: run_entry_def Let_def)
  moreover have "deq (m_sigma2 r) (Fin 0) \<Longrightarrow> m_sigma2 r = Fin 0"
    by (simp add: deq_def)
  ultimately show ?thesis
    using assms
    by (simp add: run_def calls_run_exit correspondence_run_exit_on)
qed

text \<open>
  The small run with the correspondence: the direct comparer gets the variance 0, the
  Result's variance is positive.
\<close>

theorem correspondence_sigma2_witness:
  "m_correspondence (set_correspondence True sample_Runner)
   \<and> deq (m_sigma2 (set_correspondence True sample_Runner)) (Fin 0)
   \<and> last (snd (snd (run sample_Env sample_Transform (set_correspondence True sample_Runner)
        sample_fixed sample_moving)))
     = Call_DirectComparer sample_fixed
         (points (fst (run sample_Env sample_Transform (set_correspondence True sample_Runner)
            sample_fixed sample_moving)))
         (Fin 0) (Fin (1 / 10))
   \<and> Fin 0 < sigma2 (fst (run sample_Env sample_Transform
        (set_correspondence True sample_Runner) sample_fixed sample_moving))
   \<and> sigma2 (result (run_entry sample_Env sample_Transform
        (set_correspondence True sample_Runner) sample_fixed sample_moving)) = Fin 1"
proof -
  let ?r = "set_correspondence True sample_Runner"
  have on: "m_correspondence ?r" and z: "deq (m_sigma2 ?r) (Fin 0)"
    and o: "m_outliers ?r = Fin (1 / 10)"
    by (simp_all add: sample_defs runner_defs deq_def)
  have s: "Fin 0 < sigma2 (fst (run sample_Env sample_Transform ?r sample_fixed sample_moving))"
    by (simp add: eval_defs)
  have d: "default_sigma2 sample_Env (fixed_ptr sample_Env ?r sample_fixed sample_moving)
      (moving_ptr sample_Env ?r sample_fixed sample_moving) = Fin 1"
    by (simp add: eval_defs)
  from correspondence_sigma2 [OF on, of sample_Env sample_Transform sample_fixed sample_moving]
  show ?thesis
    using on z o s d by (simp add: deq_def)
qed

end
